theory Spec2Isabelle
  imports Main
begin

section \<open>The console of the activity log: src/js/console.js\<close>

text \<open>
  The file defines one object, \<^verbatim>\<open>Log.console\<close>, with the alias tables of the
  operations, the parser \<^verbatim>\<open>parseCmd\<close>, the dispatcher \<^verbatim>\<open>executeCmd\<close> and the
  handlers that change the global \<^verbatim>\<open>user\<close> (its log and its configuration).

  Conventions of the embedding.
  \<^item> A JavaScript string is a \<^typ>\<open>string\<close>: a list of code units, here the code
    units below 256 (Latin-1). A value that is a string or \<^verbatim>\<open>undefined\<close> is a
    \<^typ>\<open>string option\<close>, with \<^term>\<open>None\<close> for \<^verbatim>\<open>undefined\<close>.
  \<^item> The globals the handlers change, and the calls they make to their collaborators
    (notifications, refresh, the timer, the option setters), are one record that every
    handler takes and returns.
  \<^item> A handler returns how it completed (normally, or by throwing) with the state it
    leaves behind.
\<close>

subsection \<open>Strings\<close>

definition quote :: char where
  "quote = CHR 0x22"

definition space :: char where
  "space = CHR 0x20"

text \<open>\<^verbatim>\<open>String.prototype.toLowerCase\<close> on code units below 256: the letters A to Z
  and the upper-case letters of Latin-1 (0xC0 to 0xDE without the sign 0xD7) move up
  by 32.\<close>

definition toLowerCase_char :: "char \<Rightarrow> char" where
  "toLowerCase_char ch =
     (let n = (of_char ch :: nat)
      in if (65 \<le> n \<and> n \<le> 90) \<or> (192 \<le> n \<and> n \<le> 222 \<and> n \<noteq> 215)
         then char_of (n + 32) else ch)"

definition toLowerCase :: "string \<Rightarrow> string" where
  "toLowerCase str = map toLowerCase_char str"

text \<open>\<^verbatim>\<open>str.split(sep)\<close> for a separator of one character: the pieces between the
  separators, in order; a string without separator is its own single piece.\<close>

fun split_char :: "char \<Rightarrow> string \<Rightarrow> string list" where
  "split_char sep [] = [[]]"
| "split_char sep (ch # rest) =
     (if ch = sep then [] # split_char sep rest
      else (case split_char sep rest of
              [] \<Rightarrow> [[ch]]
            | piece # pieces \<Rightarrow> (ch # piece) # pieces))"

text \<open>\<^verbatim>\<open>str.split(' ', 1)[0]\<close>: the list of pieces cut to one element, then its
  element 0 (the list of pieces is never empty).\<close>

definition first_token :: "string \<Rightarrow> string" where
  "first_token str = hd (take 1 (split_char space str))"

text \<open>Template literals print \<^verbatim>\<open>undefined\<close> as the word.\<close>

definition to_string :: "string option \<Rightarrow> string" where
  "to_string v = (case v of None \<Rightarrow> ''undefined'' | Some str \<Rightarrow> str)"

subsection \<open>The alias tables (lines 6 to 10)\<close>

text \<open>The four alias arrays of a \<^verbatim>\<open>Log.console\<close> object, and those that lines 6 to 9
  of this file write.\<close>

record console_aliases =
  startOp :: "string list"
  stopOp :: "string list"
  resumeOp :: "string list"
  addOp :: "string list"

definition Log_console_aliases :: console_aliases where
  "Log_console_aliases =
     \<lparr>startOp = [''start'', ''begin''],
      stopOp = [''stop'', ''end'', ''pause''],
      resumeOp = [''resume'', ''continue''],
      addOp = [''add'', ''continue'']\<rparr>"

text \<open>Line 10 is evaluated while the object literal is still being built, before its
  assignment to \<^verbatim>\<open>Log.console\<close>: the four spread elements read the arrays of the
  \<^verbatim>\<open>Log.console\<close> that \<^verbatim>\<open>Log\<close> held before this file ran, not those of lines 6 to 9.
  The table is a function of that earlier object.\<close>

definition possibleOperations :: "console_aliases \<Rightarrow> string list" where
  "possibleOperations earlier =
     startOp earlier @ stopOp earlier @ resumeOp earlier @ addOp earlier @
     [''edit'', ''delete'', ''set'', ''import'', ''export'', ''rename'', ''invert'']"

subsection \<open>The parser (lines 40 to 68)\<close>

record command =
  operation :: string
  args :: "string list"

text \<open>The loop of \<^verbatim>\<open>quotedArgs\<close> over the characters of the input, with its three
  variables \<^verbatim>\<open>args\<close>, \<^verbatim>\<open>quoteStart\<close> and \<^verbatim>\<open>arg\<close>.\<close>

fun quotedArgs_loop :: "string \<Rightarrow> string list \<Rightarrow> bool \<Rightarrow> string \<Rightarrow> string list" where
  "quotedArgs_loop [] args' quoteStart arg = args'"
| "quotedArgs_loop (ch # rest) args' quoteStart arg =
     (if ch = quote then
        (if \<not> quoteStart then quotedArgs_loop rest args' True arg
         else quotedArgs_loop rest (args' @ [arg]) False [])
      else
        (if quoteStart then quotedArgs_loop rest args' quoteStart (arg @ [ch])
         else quotedArgs_loop rest args' quoteStart arg))"

definition quotedArgs :: "string \<Rightarrow> string list" where
  "quotedArgs str = quotedArgs_loop str [] False []"

text \<open>\<^verbatim>\<open>parseCmd\<close> reads the table \<^verbatim>\<open>Log.console.possibleOperations\<close> that the load
  of the file has built, here its first argument, and returns nothing (\<^term>\<open>None\<close>)
  for an operation that is not in it.\<close>

definition parseCmd :: "string list \<Rightarrow> string \<Rightarrow> command option" where
  "parseCmd ops str =
     (let op = toLowerCase (first_token str)
      in if \<not> List.member ops op then None
         else Some \<lparr>operation = op, args = quotedArgs str\<rparr>)"

subsection \<open>The user's data and what the handlers do to the outside\<close>

text \<open>An entry of \<^verbatim>\<open>user.log\<close>: start \<^verbatim>\<open>s\<close>, end \<^verbatim>\<open>e\<close>, sector \<^verbatim>\<open>c\<close>,
  project \<^verbatim>\<open>t\<close> and description \<^verbatim>\<open>d\<close>. An entry that has not ended holds the
  string \<^verbatim>\<open>'undefined'\<close> in \<^verbatim>\<open>e\<close>.\<close>

record entry =
  s :: "string option"
  e :: "string option"
  c :: "string option"
  t :: "string option"
  d :: "string option"

record state =
  log :: "entry list"                                \<comment> \<open>\<^verbatim>\<open>user.log\<close>\<close>
  bg :: "string option"                              \<comment> \<open>\<^verbatim>\<open>user.config.ui.bg\<close>\<close>
  colour :: "string option"                          \<comment> \<open>\<^verbatim>\<open>user.config.ui.colour\<close>\<close>
  notifications :: "string list"                     \<comment> \<open>the messages given to \<^verbatim>\<open>window.Notification\<close>, in order\<close>
  updates :: nat                                     \<comment> \<open>the calls of \<^verbatim>\<open>Log.options.update()\<close>\<close>
  timers_cleared :: nat                              \<comment> \<open>the calls of \<^verbatim>\<open>clearInterval(timer)\<close>\<close>
  option_calls :: "(string \<times> string option) list"    \<comment> \<open>the setters of \<^verbatim>\<open>Log.options\<close> called by \<^verbatim>\<open>set\<close>\<close>

datatype error = TypeError

datatype completion = Normal | Throw error

text \<open>What the file takes from outside: the alias arrays of the \<^verbatim>\<open>Log.console\<close> that
  existed before the file ran (\<^term>\<open>None\<close> where there was none, or one without the four
  arrays), the arrays that the
  namespace object \<^verbatim>\<open>Log\<close> itself holds under a name (\<^term>\<open>None\<close> where \<^verbatim>\<open>Log\<close> has
  no such property), the property names every array inherits from its prototypes, the two
  functions of \<^verbatim>\<open>Log.time\<close> (\<^verbatim>\<open>toHex(new Date())\<close> at the moment of the call, and
  \<^verbatim>\<open>convertDateTime\<close>), and the two handlers that only talk to the file dialog,
  the file system and the store.\<close>

record host =
  earlier_console :: "console_aliases option"
  Log_member :: "string \<Rightarrow> string list option"
  inherited :: "string list"
  toHex_now :: "string option"
  convertDateTime :: "string option \<Rightarrow> string option"
  importUser :: "state \<Rightarrow> completion \<times> state"
  exportUser :: "state \<Rightarrow> completion \<times> state"

text \<open>The load of the file: with no earlier \<^verbatim>\<open>Log.console\<close>, line 10 reads a property
  of \<^verbatim>\<open>undefined\<close> (or spreads one) and throws, and \<^verbatim>\<open>Log.console\<close> is never assigned;
  otherwise the new console holds the table built from the earlier arrays.\<close>

definition load_console :: "host \<Rightarrow> error + string list" where
  "load_console h =
     (case earlier_console h of
        None \<Rightarrow> Inl TypeError
      | Some earlier \<Rightarrow> Inr (possibleOperations earlier))"

definition notify :: "string \<Rightarrow> state \<Rightarrow> state" where
  "notify message st = st\<lparr>notifications := notifications st @ [message]\<rparr>"

definition options_update :: "state \<Rightarrow> state" where
  "options_update st = st\<lparr>updates := Suc (updates st)\<rparr>"

definition clearInterval :: "state \<Rightarrow> state" where
  "clearInterval st = st\<lparr>timers_cleared := Suc (timers_cleared st)\<rparr>"

definition label3 :: "string option \<Rightarrow> string option \<Rightarrow> string option \<Rightarrow> string" where
  "label3 sect proj desc = to_string sect @ '' - '' @ to_string proj @ '' - '' @ to_string desc"

subsection \<open>Arrays and numbers of JavaScript\<close>

text \<open>\<^verbatim>\<open>xs.slice(start)\<close>: a negative start counts from the end, and both ends are
  clamped.\<close>

definition slice_from :: "int \<Rightarrow> 'a list \<Rightarrow> 'a list" where
  "slice_from start xs =
     (let len = int (length xs);
          k = (if start < 0 then max (len + start) 0 else min start len)
      in drop (nat k) xs)"

text \<open>\<^verbatim>\<open>xs[0]\<close>: the first element, or \<^verbatim>\<open>undefined\<close>.\<close>

definition element0 :: "'a list \<Rightarrow> 'a option" where
  "element0 xs = (case xs of [] \<Rightarrow> None | x # _ \<Rightarrow> Some x)"

text \<open>A number of JavaScript is a double: \<^verbatim>\<open>NaN\<close>, an infinity, or a finite dyadic
  rational of 53 significant bits. The finite ones are kept exactly: \<open>Num i\<close> is the
  integer \<open>i\<close>, and \<open>Frac m k\<close> is \<open>m / 2 ^ k\<close> with \<open>m\<close> odd and \<open>k\<close> positive, a number
  that is not an integer. The two zeros are not told apart.\<close>

datatype jsnum = NaN | Num int | Frac int nat | PosInf | NegInf

text \<open>Rounding of the rational \<open>n / dn\<close>, negated when \<open>neg\<close>, to the nearest double, ties
  to the even significand: \<open>floor_log2\<close> is the binary exponent of \<open>n / dn\<close>, the unit of
  the result is \<open>2 ^ q\<close> with \<open>q\<close> at least -1074 (the subnormal numbers), and a result of
  \<open>2 ^ 1024\<close> or more is an infinity. \<open>dyadic m k\<close> is \<open>m / 2 ^ k\<close> in lowest terms.\<close>

function bitlen :: "nat \<Rightarrow> nat" where
  "bitlen n = (if n = 0 then 0 else Suc (bitlen (n div 2)))"
  by pat_completeness auto
termination
  by (relation "measure (\<lambda>n. n)") auto

declare bitlen.simps [simp del]

definition floor_log2 :: "nat \<Rightarrow> nat \<Rightarrow> int" where
  "floor_log2 n dn =
     (let b = int (bitlen n) - int (bitlen dn)
      in if (if 0 \<le> b then dn * 2 ^ nat b \<le> n else dn \<le> n * 2 ^ nat (- b)) then b else b - 1)"

definition round_half_even :: "nat \<Rightarrow> nat \<Rightarrow> nat" where
  "round_half_even num den =
     (let f = num div den; r = num mod den
      in if 2 * r < den then f else if den < 2 * r then Suc f else if even f then f else Suc f)"

function dyadic :: "int \<Rightarrow> nat \<Rightarrow> jsnum" where
  "dyadic m k = (if k = 0 then Num m else if even m then dyadic (m div 2) (k - 1) else Frac m k)"
  by pat_completeness auto
termination
  by (relation "measure (\<lambda>(m, k). k)") auto

declare dyadic.simps [simp del]

definition round_double :: "bool \<Rightarrow> nat \<Rightarrow> nat \<Rightarrow> jsnum" where
  "round_double neg n dn =
     (if n = 0 then Num 0
      else
        let ex = floor_log2 n dn;
            q = max (ex - 52) (- 1074);
            m = (if 0 \<le> q then round_half_even n (dn * 2 ^ nat q)
                 else round_half_even (n * 2 ^ nat (- q)) dn)
        in if 971 < q \<or> (q = 971 \<and> 2 ^ 53 \<le> m) then (if neg then NegInf else PosInf)
           else
             let sm = (if neg then - int m else int m)
             in if 0 \<le> q then Num (sm * 2 ^ nat q) else dyadic sm (nat (- q)))"

text \<open>\<^verbatim>\<open>Number(v)\<close> for a string or \<^verbatim>\<open>undefined\<close>. \<^verbatim>\<open>undefined\<close> is \<^verbatim>\<open>NaN\<close>. A string
  is stripped of the white space at both ends (among the code units below 256: tab,
  line feed, vertical tab, form feed, carriage return, space, no-break space); what
  is left is read as nothing (the number 0), as digits in base 16, 8 or 2 after
  \<^verbatim>\<open>0x\<close>, \<^verbatim>\<open>0o\<close> or \<^verbatim>\<open>0b\<close>, or, after an optional sign, as \<^verbatim>\<open>Infinity\<close> or as a
  decimal numeral with an optional fraction and exponent; any other text is \<^verbatim>\<open>NaN\<close>.
  The value is rounded to a double.\<close>

definition is_digit :: "char \<Rightarrow> bool" where
  "is_digit ch = (48 \<le> (of_char ch :: nat) \<and> (of_char ch :: nat) \<le> 57)"

definition is_white :: "char \<Rightarrow> bool" where
  "is_white ch = List.member [9, 10, 11, 12, 13, 32, 160] (of_char ch :: nat)"

definition trim :: "string \<Rightarrow> string" where
  "trim str = rev (dropWhile is_white (rev (dropWhile is_white str)))"

definition digit_of :: "char \<Rightarrow> nat option" where
  "digit_of ch =
     (let n = (of_char ch :: nat)
      in if 48 \<le> n \<and> n \<le> 57 then Some (n - 48)
         else if 97 \<le> n \<and> n \<le> 102 then Some (n - 87)
         else if 65 \<le> n \<and> n \<le> 70 then Some (n - 55)
         else None)"

definition digits_in :: "nat \<Rightarrow> string \<Rightarrow> bool" where
  "digits_in radix str =
     (str \<noteq> [] \<and> list_all (\<lambda>ch. case digit_of ch of None \<Rightarrow> False | Some v \<Rightarrow> v < radix) str)"

definition digits_value :: "nat \<Rightarrow> string \<Rightarrow> nat" where
  "digits_value radix str =
     foldl (\<lambda>acc ch. radix * acc + (case digit_of ch of None \<Rightarrow> 0 | Some v \<Rightarrow> v)) 0 str"

text \<open>What may follow the digits of a decimal numeral: nothing, or an exponent.\<close>

definition exponent_part :: "string \<Rightarrow> int option" where
  "exponent_part str =
     (case str of
        [] \<Rightarrow> Some 0
      | ch # rest \<Rightarrow>
          if ch = CHR ''e'' \<or> ch = CHR ''E'' then
            (case rest of
               [] \<Rightarrow> None
             | sg # ds \<Rightarrow>
                 if sg = CHR ''-'' then (if digits_in 10 ds then Some (- int (digits_value 10 ds)) else None)
                 else if sg = CHR ''+'' then (if digits_in 10 ds then Some (int (digits_value 10 ds)) else None)
                 else if digits_in 10 rest then Some (int (digits_value 10 rest))
                 else None)
          else None)"

text \<open>An unsigned decimal numeral as its digits and a power of ten: digits with an
  optional point and fraction, or a point and a fraction, then the exponent.\<close>

definition decimal_literal :: "string \<Rightarrow> (nat \<times> int) option" where
  "decimal_literal str =
     (let ip = takeWhile is_digit str; r1 = dropWhile is_digit str
      in case r1 of
           [] \<Rightarrow> if ip = [] then None else Some (digits_value 10 ip, 0)
         | ch # r2 \<Rightarrow>
             if ch = CHR ''.'' then
               (let fp = takeWhile is_digit r2; r3 = dropWhile is_digit r2
                in if ip = [] \<and> fp = [] then None
                   else (case exponent_part r3 of
                           None \<Rightarrow> None
                         | Some ex \<Rightarrow> Some (digits_value 10 (ip @ fp), ex - int (length fp))))
             else if ip = [] then None
             else (case exponent_part r1 of
                     None \<Rightarrow> None
                   | Some ex \<Rightarrow> Some (digits_value 10 ip, ex)))"

definition radix_literal :: "string \<Rightarrow> nat option" where
  "radix_literal str =
     (case str of
        z # x # ds \<Rightarrow>
          if z \<noteq> CHR ''0'' then None
          else if (x = CHR ''x'' \<or> x = CHR ''X'') \<and> digits_in 16 ds then Some (digits_value 16 ds)
          else if (x = CHR ''o'' \<or> x = CHR ''O'') \<and> digits_in 8 ds then Some (digits_value 8 ds)
          else if (x = CHR ''b'' \<or> x = CHR ''B'') \<and> digits_in 2 ds then Some (digits_value 2 ds)
          else None
      | _ \<Rightarrow> None)"

definition signed_literal :: "bool \<Rightarrow> string \<Rightarrow> jsnum" where
  "signed_literal neg body =
     (if body = ''Infinity'' then (if neg then NegInf else PosInf)
      else (case decimal_literal body of
              None \<Rightarrow> NaN
            | Some (dv, ex) \<Rightarrow>
                if 0 \<le> ex then round_double neg (dv * 10 ^ nat ex) 1
                else round_double neg dv (10 ^ nat (- ex))))"

definition Number :: "string option \<Rightarrow> jsnum" where
  "Number v =
     (case v of
        None \<Rightarrow> NaN
      | Some raw \<Rightarrow>
          (case trim raw of
             [] \<Rightarrow> Num 0
           | ch # rest \<Rightarrow>
               (case radix_literal (ch # rest) of
                  Some n \<Rightarrow> round_double False n 1
                | None \<Rightarrow>
                    if ch = CHR ''-'' then signed_literal True rest
                    else if ch = CHR ''+'' then signed_literal False rest
                    else signed_literal False (ch # rest))))"

text \<open>\<^verbatim>\<open>x - 1\<close>: exact, then rounded to a double.\<close>

definition minus_one :: "jsnum \<Rightarrow> jsnum" where
  "minus_one x =
     (case x of
        NaN \<Rightarrow> NaN
      | PosInf \<Rightarrow> PosInf
      | NegInf \<Rightarrow> NegInf
      | Num i \<Rightarrow> round_double (i - 1 < 0) (nat \<bar>i - 1\<bar>) 1
      | Frac m k \<Rightarrow> round_double (m - 2 ^ k < 0) (nat \<bar>m - 2 ^ k\<bar>) (2 ^ k))"

text \<open>The start that \<^verbatim>\<open>splice\<close> computes from its first argument and the length: the
  number is cut to an integer towards zero (\<^verbatim>\<open>NaN\<close> to 0), a negative one counts from
  the end, and the result is clamped to the array.\<close>

definition clamp_start :: "int \<Rightarrow> nat \<Rightarrow> nat" where
  "clamp_start i len = nat (if i < 0 then max (int len + i) 0 else min i (int len))"

definition actual_start :: "jsnum \<Rightarrow> nat \<Rightarrow> nat" where
  "actual_start x len =
     (case x of
        NaN \<Rightarrow> 0
      | NegInf \<Rightarrow> 0
      | PosInf \<Rightarrow> len
      | Num i \<Rightarrow> clamp_start i len
      | Frac m k \<Rightarrow> clamp_start (if 0 \<le> m then m div 2 ^ k else - ((- m) div 2 ^ k)) len)"

text \<open>\<^verbatim>\<open>xs.splice(start, 1)\<close>: removes one element at the start so computed, none
  when the start is the length.\<close>

definition splice1 :: "jsnum \<Rightarrow> 'a list \<Rightarrow> 'a list" where
  "splice1 start xs =
     (let k = actual_start start (length xs)
      in take k xs @ drop (Suc k) xs)"

text \<open>The decimal text of an array index.\<close>

definition digit_char :: "nat \<Rightarrow> char" where
  "digit_char n = char_of (48 + n)"

function index_text :: "nat \<Rightarrow> string" where
  "index_text n = (if n < 10 then [digit_char n] else index_text (n div 10) @ [digit_char (n mod 10)])"
  by pat_completeness auto
termination
  by (relation "measure (\<lambda>n. n)") auto

declare index_text.simps [simp del]

text \<open>\<^verbatim>\<open>key in arr\<close> asks whether the array has a property of that name: one of its
  indices, \<^verbatim>\<open>length\<close>, or an inherited name. The elements of the array play no
  part. With \<^verbatim>\<open>undefined\<close> on the right it throws a \<^verbatim>\<open>TypeError\<close>.\<close>

definition has_property :: "string list \<Rightarrow> 'a list \<Rightarrow> string \<Rightarrow> bool" where
  "has_property inh arr key =
     (List.member (map index_text [0..<length arr]) key \<or> key = ''length'' \<or> List.member inh key)"

definition js_in :: "string list \<Rightarrow> string \<Rightarrow> 'a list option \<Rightarrow> error + bool" where
  "js_in inh key obj =
     (case obj of None \<Rightarrow> Inl TypeError | Some arr \<Rightarrow> Inr (has_property inh arr key))"

text \<open>The values a \<^verbatim>\<open>case\<close> of the dispatcher's \<^verbatim>\<open>switch (true)\<close> compares with
  \<^verbatim>\<open>true\<close>: a boolean or a string. \<^verbatim>\<open>===\<close> is false across the two types.\<close>

datatype jsval = JBool bool | JStr string

fun strict_equals :: "jsval \<Rightarrow> jsval \<Rightarrow> bool" where
  "strict_equals (JBool a) (JBool b) = (a = b)"
| "strict_equals (JStr a) (JStr b) = (a = b)"
| "strict_equals _ _ = False"

subsection \<open>The handlers of the log (lines 192 to 386)\<close>

text \<open>\<^verbatim>\<open>startLog\<close>: the guard is \<^verbatim>\<open>user.log.length !== 0 && user.log.slice(-1)[0].e === 'undefined'\<close>;
  its right half is only evaluated on a log that is not empty.\<close>

definition is_open :: "entry \<Rightarrow> bool" where
  "is_open x = (e x = Some ''undefined'')"

definition last_entry :: "entry list \<Rightarrow> entry option" where
  "last_entry lg = element0 (slice_from (- 1) lg)"

definition startLog ::
  "host \<Rightarrow> string option \<Rightarrow> string option \<Rightarrow> string option \<Rightarrow> state \<Rightarrow> completion \<times> state" where
  "startLog h sect proj desc st =
     (case (if length (log st) \<noteq> 0
            then (case last_entry (log st) of
                    None \<Rightarrow> Inl TypeError
                  | Some last' \<Rightarrow> Inr (is_open last'))
            else Inr False) of
        Inl err \<Rightarrow> (Throw err, st)
      | Inr True \<Rightarrow> (Normal, st)
      | Inr False \<Rightarrow>
          (Normal,
           options_update
             (notify (''Log started: '' @ label3 sect proj desc)
                (st\<lparr>log := log st @
                   [\<lparr>s = toHex_now h, e = Some ''undefined'', c = sect, t = proj, d = desc\<rparr>]\<rparr>))))"

definition addLog ::
  "host \<Rightarrow> string option \<Rightarrow> string option \<Rightarrow> string option \<Rightarrow> string option \<Rightarrow> string option
     \<Rightarrow> state \<Rightarrow> completion \<times> state" where
  "addLog h sect proj desc start end' st =
     (Normal,
      options_update
        (notify (''Log added: '' @ label3 sect proj desc)
           (st\<lparr>log := log st @
              [\<lparr>s = convertDateTime h start, e = convertDateTime h end',
                c = sect, t = proj, d = desc\<rparr>]\<rparr>)))"

text \<open>\<^verbatim>\<open>endLog\<close> reads \<^verbatim>\<open>last.e\<close> with no guard: on an empty log \<^verbatim>\<open>last\<close> is
  \<^verbatim>\<open>undefined\<close> and the read throws. \<^verbatim>\<open>last\<close> is the object at the end of
  \<^verbatim>\<open>user.log\<close>, so the assignment changes the log's last entry.\<close>

definition endLog :: "host \<Rightarrow> state \<Rightarrow> completion \<times> state" where
  "endLog h st =
     (case last_entry (log st) of
        None \<Rightarrow> (Throw TypeError, st)
      | Some last' \<Rightarrow>
          if \<not> is_open last' then (Normal, st)
          else
            (Normal,
             options_update
               (notify (''Log ended: '' @ label3 (c last') (t last') (d last'))
                  (clearInterval
                     (st\<lparr>log := (log st)[length (log st) - 1 := last'\<lparr>e := toHex_now h\<rparr>]\<rparr>)))))"

text \<open>\<^verbatim>\<open>resume(id = -1)\<close>: the entry is \<^verbatim>\<open>user.log.slice(id)[0]\<close>, read with no
  guard as in \<^verbatim>\<open>endLog\<close>. The dispatcher calls it with no argument.\<close>

definition resume :: "host \<Rightarrow> int \<Rightarrow> state \<Rightarrow> completion \<times> state" where
  "resume h id' st =
     (case element0 (slice_from id' (log st)) of
        None \<Rightarrow> (Throw TypeError, st)
      | Some entry' \<Rightarrow>
          if is_open entry' then (Normal, st)
          else
            (Normal,
             options_update
               (notify (''Log resumed: '' @ label3 (c entry') (t entry') (d entry'))
                  (st\<lparr>log := log st @
                     [\<lparr>s = toHex_now h, e = Some ''undefined'',
                       c = c entry', t = t entry', d = d entry'\<rparr>]\<rparr>))))"

text \<open>\<^verbatim>\<open>set\<close>: one setter of \<^verbatim>\<open>Log.options\<close> by attribute, none for an unknown
  attribute.\<close>

definition setter_of :: "string option \<Rightarrow> string option" where
  "setter_of attr =
     (if attr = Some ''background'' \<or> attr = Some ''bg'' then Some ''setBG''
      else if attr = Some ''color'' \<or> attr = Some ''colour'' \<or> attr = Some ''text'' then Some ''setColour''
      else if attr = Some ''highlight'' \<or> attr = Some ''accent'' then Some ''setAccent''
      else if attr = Some ''font'' \<or> attr = Some ''typeface'' \<or> attr = Some ''type'' then Some ''setFont''
      else if attr = Some ''view'' then Some ''setView''
      else if attr = Some ''cal'' \<or> attr = Some ''calendar'' then Some ''setCalendar''
      else if attr = Some ''timeformat'' \<or> attr = Some ''time'' then Some ''setTimeFormat''
      else if attr = Some ''dateformat'' \<or> attr = Some ''date'' then Some ''setDateFormat''
      else if attr = Some ''weekstart'' then Some ''setWeekStart''
      else if attr = Some ''category'' \<or> attr = Some ''sector'' \<or> attr = Some ''cat'' \<or> attr = Some ''sec''
        then Some ''setColourCode''
      else if attr = Some ''project'' \<or> attr = Some ''pro'' then Some ''setProjectColourCode''
      else if attr = Some ''colourmode'' \<or> attr = Some ''colormode'' then Some ''setColourMode''
      else None)"

definition set_attr :: "string option \<Rightarrow> string option \<Rightarrow> state \<Rightarrow> completion \<times> state" where
  "set_attr attr v st =
     (case setter_of attr of
        None \<Rightarrow> (Normal, st)
      | Some setter \<Rightarrow> (Normal, st\<lparr>option_calls := option_calls st @ [(setter, v)]\<rparr>))"

text \<open>\<^verbatim>\<open>delete(id)\<close> is \<^verbatim>\<open>user.log.splice(id - 1, 1)\<close>, then the refresh.\<close>

definition delete :: "jsnum \<Rightarrow> state \<Rightarrow> completion \<times> state" where
  "delete id' st =
     (Normal, options_update (st\<lparr>log := splice1 (minus_one id') (log st)\<rparr>))"

text \<open>An assignment \<^verbatim>\<open>user.log[id].f = v\<close>: for a number that is not an index of
  the log, \<^verbatim>\<open>user.log[id]\<close> is \<^verbatim>\<open>undefined\<close> and the assignment throws.\<close>

definition assign_entry :: "jsnum \<Rightarrow> (entry \<Rightarrow> entry) \<Rightarrow> state \<Rightarrow> completion \<times> state" where
  "assign_entry id' f st =
     (case id' of
        Num i \<Rightarrow>
          if 0 \<le> i \<and> i < int (length (log st))
          then (Normal, st\<lparr>log := (log st)[nat i := f (log st ! nat i)]\<rparr>)
          else (Throw TypeError, st)
      | _ \<Rightarrow> (Throw TypeError, st))"

definition edit :: "host \<Rightarrow> jsnum \<Rightarrow> string option \<Rightarrow> string option \<Rightarrow> state \<Rightarrow> completion \<times> state" where
  "edit h id' attr v st =
     (case (if attr = Some ''sec'' \<or> attr = Some ''sector''
              then Some (assign_entry id' (\<lambda>x. x\<lparr>c := v\<rparr>) st)
            else if attr = Some ''title'' \<or> attr = Some ''pro'' \<or> attr = Some ''project''
              then Some (assign_entry id' (\<lambda>x. x\<lparr>t := v\<rparr>) st)
            else if attr = Some ''desc'' \<or> attr = Some ''dsc'' \<or> attr = Some ''description''
              then Some (assign_entry id' (\<lambda>x. x\<lparr>d := v\<rparr>) st)
            else if attr = Some ''start''
              then Some (assign_entry id' (\<lambda>x. x\<lparr>s := convertDateTime h v\<rparr>) st)
            else if attr = Some ''end''
              then Some (assign_entry id' (\<lambda>x. x\<lparr>e := convertDateTime h v\<rparr>) st)
            else None) of
        None \<Rightarrow> (Normal, st)
      | Some (Throw err, st') \<Rightarrow> (Throw err, st')
      | Some (Normal, st') \<Rightarrow> (Normal, options_update st'))"

text \<open>Modelled from the spec: \<^verbatim>\<open>Log.data.getEntriesBySector\<close> and
  \<^verbatim>\<open>Log.data.getEntriesByProject\<close> are not in this file; the spec has \<^verbatim>\<open>rename\<close> look
  for the entries that match the old name in the targeted field.\<close>

definition getEntriesBySector :: "string option \<Rightarrow> entry list \<Rightarrow> entry list" where
  "getEntriesBySector name lg = filter (\<lambda>x. c x = name) lg"

definition getEntriesByProject :: "string option \<Rightarrow> entry list \<Rightarrow> entry list" where
  "getEntriesByProject name lg = filter (\<lambda>x. t x = name) lg"

definition notFound :: "string \<Rightarrow> string option \<Rightarrow> state \<Rightarrow> state" where
  "notFound category oldName st =
     notify
       ((if category = ''sector'' then ''The sector '' else ''The project '')
          @ [quote] @ to_string oldName @ [quote] @ '' does not exist in your logs.'')
       st"

text \<open>The two loops of \<^verbatim>\<open>rename\<close> over the indices of the log.\<close>

definition rename_sectors :: "string option \<Rightarrow> string option \<Rightarrow> entry list \<Rightarrow> entry list" where
  "rename_sectors oldName newName lg =
     fold (\<lambda>i l. if c (l ! i) = oldName then l[i := (l ! i)\<lparr>c := newName\<rparr>] else l) [0..<length lg] lg"

definition rename_projects :: "string option \<Rightarrow> string option \<Rightarrow> entry list \<Rightarrow> entry list" where
  "rename_projects oldName newName lg =
     fold (\<lambda>i l. if t (l ! i) = oldName then l[i := (l ! i)\<lparr>t := newName\<rparr>] else l) [0..<length lg] lg"

text \<open>\<^verbatim>\<open>rename\<close>: the guard of line 341 is \<^verbatim>\<open>!(category in ['sector', 'sec', 'project', 'pro'])\<close>,
  a test of the array's property names. The message of success names the sector in
  both branches.\<close>

definition rename ::
  "host \<Rightarrow> string option \<Rightarrow> string option \<Rightarrow> string option \<Rightarrow> state \<Rightarrow> completion \<times> state" where
  "rename h category oldName newName st =
     (if \<not> has_property (inherited h) [''sector'', ''sec'', ''project'', ''pro''] (to_string category)
      then (Normal, st)
      else
        (case (if category = Some ''sector'' \<or> category = Some ''sec''
                 then (if length (getEntriesBySector oldName (log st)) = 0
                       then Inl (notFound ''sector'' oldName st)
                       else Inr (st\<lparr>log := rename_sectors oldName newName (log st)\<rparr>))
               else if category = Some ''project'' \<or> category = Some ''pro''
                 then (if length (getEntriesByProject oldName (log st)) = 0
                       then Inl (notFound ''project'' oldName st)
                       else Inr (st\<lparr>log := rename_projects oldName newName (log st)\<rparr>))
               else Inl st) of
           Inl st' \<Rightarrow> (Normal, st')
         | Inr st' \<Rightarrow>
             (Normal,
              options_update
                (notify
                   (''The sector '' @ [quote] @ to_string oldName @ [quote]
                      @ '' has been renamed to '' @ [quote] @ to_string newName @ ''.'' @ [quote])
                   st'))))"

definition invert :: "state \<Rightarrow> completion \<times> state" where
  "invert st = (Normal, options_update (st\<lparr>bg := colour st, colour := bg st\<rparr>))"

subsection \<open>The dispatcher (lines 76 to 142)\<close>

text \<open>\<^verbatim>\<open>cmd.args[i]\<close>: the argument, or \<^verbatim>\<open>undefined\<close> past the end.\<close>

definition arg_at :: "command \<Rightarrow> nat \<Rightarrow> string option" where
  "arg_at cmd i = (if i < length (args cmd) then Some (args cmd ! i) else None)"

text \<open>The bodies of the cases, in the order of the source. \<^verbatim>\<open>toLowerCase\<close> of an
  argument that is missing throws.\<close>

definition start_case :: "host \<Rightarrow> command \<Rightarrow> state \<Rightarrow> completion \<times> state" where
  "start_case h cmd st = startLog h (arg_at cmd 0) (arg_at cmd 1) (arg_at cmd 2) st"

definition add_case :: "host \<Rightarrow> command \<Rightarrow> state \<Rightarrow> completion \<times> state" where
  "add_case h cmd st =
     addLog h (arg_at cmd 0) (arg_at cmd 1) (arg_at cmd 2) (arg_at cmd 3) (arg_at cmd 4) st"

definition edit_case :: "host \<Rightarrow> command \<Rightarrow> state \<Rightarrow> completion \<times> state" where
  "edit_case h cmd st =
     (let id' = minus_one (Number (arg_at cmd 0))
      in case arg_at cmd 1 of
           None \<Rightarrow> (Throw TypeError, st)
         | Some a \<Rightarrow> edit h id' (Some (toLowerCase a)) (arg_at cmd 2) st)"

definition delete_case :: "command \<Rightarrow> state \<Rightarrow> completion \<times> state" where
  "delete_case cmd st = delete (minus_one (Number (arg_at cmd 0))) st"

definition set_case :: "command \<Rightarrow> state \<Rightarrow> completion \<times> state" where
  "set_case cmd st =
     (case arg_at cmd 0 of
        None \<Rightarrow> (Throw TypeError, st)
      | Some a \<Rightarrow> set_attr (Some (toLowerCase a)) (arg_at cmd 1) st)"

definition rename_case :: "host \<Rightarrow> command \<Rightarrow> state \<Rightarrow> completion \<times> state" where
  "rename_case h cmd st = rename h (arg_at cmd 0) (arg_at cmd 1) (arg_at cmd 2) st"

text \<open>The cases from \<^verbatim>\<open>'edit'\<close> to \<^verbatim>\<open>'invert'\<close>: each compares the \<^verbatim>\<open>true\<close> of
  \<^verbatim>\<open>switch (true)\<close> with a string. There is no default case.\<close>

definition string_cases :: "host \<Rightarrow> command \<Rightarrow> state \<Rightarrow> completion \<times> state" where
  "string_cases h cmd st =
     (if strict_equals (JBool True) (JStr ''edit'') then edit_case h cmd st
      else if strict_equals (JBool True) (JStr ''delete'') then delete_case cmd st
      else if strict_equals (JBool True) (JStr ''set'') then set_case cmd st
      else if strict_equals (JBool True) (JStr ''import'') then importUser h st
      else if strict_equals (JBool True) (JStr ''export'') then exportUser h st
      else if strict_equals (JBool True) (JStr ''rename'') then rename_case h cmd st
      else if strict_equals (JBool True) (JStr ''invert'') then invert st
      else (Normal, st))"

text \<open>The first four cases evaluate \<^verbatim>\<open>cmd.operation in Log.startOp\<close> and its three
  siblings, in this order, each only when the cases before it did not match; the
  right operands are properties of \<^verbatim>\<open>Log\<close>, not of \<^verbatim>\<open>Log.console\<close>.\<close>

definition executeCmd :: "host \<Rightarrow> command \<Rightarrow> state \<Rightarrow> completion \<times> state" where
  "executeCmd h cmd st =
     (case js_in (inherited h) (operation cmd) (Log_member h ''startOp'') of
        Inl err \<Rightarrow> (Throw err, st)
      | Inr b1 \<Rightarrow>
          if strict_equals (JBool True) (JBool b1) then start_case h cmd st
          else
     (case js_in (inherited h) (operation cmd) (Log_member h ''stopOp'') of
        Inl err \<Rightarrow> (Throw err, st)
      | Inr b2 \<Rightarrow>
          if strict_equals (JBool True) (JBool b2) then endLog h st
          else
     (case js_in (inherited h) (operation cmd) (Log_member h ''resumeOp'') of
        Inl err \<Rightarrow> (Throw err, st)
      | Inr b3 \<Rightarrow>
          if strict_equals (JBool True) (JBool b3) then resume h (- 1) st
          else
     (case js_in (inherited h) (operation cmd) (Log_member h ''addOp'') of
        Inl err \<Rightarrow> (Throw err, st)
      | Inr b4 \<Rightarrow>
          if strict_equals (JBool True) (JBool b4) then add_case h cmd st
          else string_cases h cmd st))))"

text \<open>A line of input: parsed, and executed when the parser accepts it. Where the load
  of the file has thrown there is no \<^verbatim>\<open>Log.console\<close>, and the call of its parser
  throws.\<close>

definition run_line :: "host \<Rightarrow> string \<Rightarrow> state \<Rightarrow> completion \<times> state" where
  "run_line h str st =
     (case load_console h of
        Inl err \<Rightarrow> (Throw err, st)
      | Inr ops \<Rightarrow>
          (case parseCmd ops str of
             None \<Rightarrow> (Normal, st)
           | Some cmd \<Rightarrow> executeCmd h cmd st))"

subsection \<open>The invariant of the log, and the reading of arguments between quotes\<close>

text \<open>The spec's invariant: at most one entry is open, and an open entry is the last
  one.\<close>

definition log_invariant :: "entry list \<Rightarrow> bool" where
  "log_invariant lg =
     (length (filter is_open lg) \<le> 1 \<and> (if filter is_open lg = [] then True else is_open (last lg)))"

text \<open>The spec's reading of the arguments: cut the input at every double quote; the
  pieces at odd positions stand between an opening quote and what follows it, and
  the last piece has no quote after it. The arguments are the pieces at odd positions
  among all pieces but the last.\<close>

fun odd_pieces :: "'a list \<Rightarrow> 'a list" where
  "odd_pieces [] = []"
| "odd_pieces [x] = []"
| "odd_pieces (x # y # rest) = y # odd_pieces rest"

definition between_quotes :: "string \<Rightarrow> string list" where
  "between_quotes str = odd_pieces (butlast (split_char quote str))"


subsection \<open>Concrete inputs\<close>

text \<open>A host on which a console with the arrays of lines 6 to 9 was there before the
  file ran, whose \<^verbatim>\<open>Log\<close> holds no array of its own, as this file leaves it, with
  some inherited array properties, a fixed clock, and a \<^verbatim>\<open>convertDateTime\<close> that
  hands its text back; the same host with no earlier console; and an earlier console
  whose first alias ends in a double quote, with a line for that alias.\<close>

definition sample_host :: host where
  "sample_host =
     \<lparr>earlier_console = Some Log_console_aliases,
      Log_member = (\<lambda>name. None),
      inherited = [''constructor'', ''toString'', ''push'', ''pop'', ''splice'', ''includes''],
      toHex_now = Some ''5bd6c1a0'',
      convertDateTime = (\<lambda>v. v),
      importUser = (\<lambda>st. (Normal, st)),
      exportUser = (\<lambda>st. (Normal, st))\<rparr>"

definition fresh_host :: host where
  "fresh_host = sample_host\<lparr>earlier_console := None\<rparr>"



definition entry_A :: entry where
  "entry_A = \<lparr>s = Some ''5bd6a000'', e = Some ''5bd6a800'', c = Some ''A'', t = Some ''site'', d = Some ''build feature''\<rparr>"

definition entry_C :: entry where
  "entry_C = \<lparr>s = Some ''5bd6b000'', e = Some ''5bd6b800'', c = Some ''C'', t = Some ''notes'', d = Some ''writing spec''\<rparr>"

definition entry_running :: entry where
  "entry_running = \<lparr>s = Some ''5bd6c000'', e = Some ''undefined'', c = Some ''A'', t = Some ''site'', d = Some ''review''\<rparr>"

definition state_of :: "entry list \<Rightarrow> state" where
  "state_of lg =
     \<lparr>log = lg, bg = Some ''#f8f8f8'', colour = Some ''#202020'', notifications = [],
      updates = 0, timers_cleared = 0, option_calls = []\<rparr>"

text \<open>The line \<^verbatim>\<open>edit 1 desc "refactored"\<close>, the same line with every argument in
  quotes, a line that starts a log and leaves a quote open, and a line for the
  alias \<^verbatim>\<open>new\<close>.\<close>

definition edit_line :: string where
  "edit_line = ''edit 1 desc '' @ [quote] @ ''refactored'' @ [quote]"

definition edit_line_quoted :: string where
  "edit_line_quoted =
     ''edit '' @ [quote] @ ''1'' @ [quote] @ '' '' @ [quote] @ ''desc'' @ [quote]
       @ '' '' @ [quote] @ ''refactored'' @ [quote]"

definition start_line :: string where
  "start_line =
     ''Start '' @ [quote] @ ''work'' @ [quote] @ '' x '' @ [quote] @ ''build feature'' @ [quote]
       @ '' '' @ [quote] @ ''dangling''"

definition new_line :: string where
  "new_line = ''new '' @ [quote] @ ''work'' @ [quote] @ '' '' @ [quote] @ ''site'' @ [quote]"

section \<open>The parser\<close>

subsection \<open>Cutting at a separator\<close>

lemma split_char_nonempty: "split_char sep str \<noteq> []"
  by (cases str) (auto split: list.splits)



lemma length_split_char: "length (split_char sep str) = Suc (count_list str sep)"
  by (induction str) (auto split: list.splits)

lemma odd_pieces_Cons: "odd_pieces (x # xs) = (case xs of [] \<Rightarrow> [] | y # ys \<Rightarrow> y # odd_pieces ys)"
  by (cases xs) auto

lemma length_odd_pieces: "length (odd_pieces xs) = length xs div 2"
  by (induction xs rule: odd_pieces.induct) auto

lemma length_between_quotes: "length (between_quotes str) = count_list str quote div 2"
  by (simp add: between_quotes_def length_odd_pieces length_split_char)

subsection \<open>The loop of quotedArgs\<close>

text \<open>Outside a quote the loop has committed the odd pieces so far; inside a quote
  the first piece of what is left goes on the end of the buffer.\<close>

lemma quotedArgs_loop_pieces:
  "quotedArgs_loop str acc False [] = acc @ odd_pieces (butlast (split_char quote str))"
  "quotedArgs_loop str acc True arg =
     acc @ (case butlast (split_char quote str) of
              [] \<Rightarrow> []
            | p # ps \<Rightarrow> (arg @ p) # odd_pieces ps)"
proof (induction str arbitrary: acc arg)
  case Nil
  { case 1 show ?case by simp }
  { case 2 show ?case by simp }
next
  case (Cons ch rest)
  obtain p ps where sp: "split_char quote rest = p # ps"
    using split_char_nonempty [of quote rest] by (cases "split_char quote rest") auto
  { case 1
    show ?case
    proof (cases "ch = quote")
      case True
      then show ?thesis
        using Cons.IH(2) [of acc "[]"]
        by (simp add: split_char_nonempty odd_pieces_Cons split: list.splits)
    next
      case False
      then show ?thesis
        using Cons.IH(1) [of acc] sp
        by (cases ps) (simp_all add: odd_pieces_Cons)
    qed }
  { case 2
    show ?case
    proof (cases "ch = quote")
      case True
      then show ?thesis
        using Cons.IH(1) [of "acc @ [arg]"]
        by (simp add: split_char_nonempty)
    next
      case False
      then show ?thesis
        using Cons.IH(2) [of acc "arg @ [ch]"] sp
        by (cases ps) simp_all
    qed }
qed

lemma quotedArgs_between_quotes: "quotedArgs str = between_quotes str"
  by (simp add: quotedArgs_def between_quotes_def quotedArgs_loop_pieces(1))



lemma quotedArgs_loop_inside:
  "quote \<notin> set a \<Longrightarrow> quotedArgs_loop (a @ rest) acc True arg = quotedArgs_loop rest acc True (arg @ a)"
  by (induction a arbitrary: arg) auto

lemma quotedArgs_loop_open_end:
  "quote \<notin> set post \<Longrightarrow> quotedArgs_loop post acc True arg = acc"
  using quotedArgs_loop_inside [of post "[]" acc arg] by simp

lemma quotedArgs_loop_append:
  "even (count_list pre quote) \<Longrightarrow>
     quotedArgs_loop (pre @ rest) acc False []
       = quotedArgs_loop rest (quotedArgs_loop pre acc False []) False []"
  "odd (count_list pre quote) \<Longrightarrow>
     quotedArgs_loop (pre @ rest) acc True arg
       = quotedArgs_loop rest (quotedArgs_loop pre acc True arg) False []"
proof (induction pre arbitrary: acc arg)
  case Nil
  { case 1 show ?case by simp }
  { case 2 then show ?case by simp }
next
  case (Cons ch pre)
  { case 1
    then show ?case
      using Cons.IH(1) [of acc] Cons.IH(2) [of acc "[]"] by (cases "ch = quote") auto }
  { case 2
    then show ?case
      using Cons.IH(1) [of "acc @ [arg]"] Cons.IH(2) [of acc "arg @ [ch]"]
      by (cases "ch = quote") auto }
qed

lemma quotedArgs_dangling:
  assumes "str = pre @ quote # post" "quote \<notin> set post" "odd (count_list str quote)"
  shows "quotedArgs str = quotedArgs pre"
proof -
  from assms have ev: "even (count_list pre quote)"
    by (simp add: count_list_0_iff)
  show ?thesis
    using quotedArgs_loop_append(1) [OF ev, of "quote # post" "[]"] assms(1,2)
    by (simp add: quotedArgs_def quotedArgs_loop_open_end)
qed


subsection \<open>The operation of an accepted line\<close>










lemmas parse_defs = parseCmd_def first_token_def toLowerCase_def toLowerCase_char_def
  possibleOperations_def quotedArgs_def quote_def space_def char_of_eq_iff

lemma parse_start_line:
  "parseCmd (possibleOperations Log_console_aliases) start_line
     = Some \<lparr>operation = ''start'', args = [''work'', ''build feature'']\<rparr>"
  by (simp add: start_line_def parse_defs Log_console_aliases_def)

lemma parse_edit_line:
  "parseCmd (possibleOperations earlier) edit_line
     = Some \<lparr>operation = ''edit'', args = [''refactored'']\<rparr>"
  by (simp add: edit_line_def parse_defs)

lemma parse_edit_line_quoted:
  "parseCmd (possibleOperations earlier) edit_line_quoted
     = Some \<lparr>operation = ''edit'', args = [''1'', ''desc'', ''refactored'']\<rparr>"
  by (simp add: edit_line_quoted_def parse_defs)


subsection \<open>Claims about the parser\<close>




text \<open>C10. For every accepted line, whatever the table of operations, the arguments of the command are the pieces of
  the line between an opening double quote and the quote that closes it, in order:
  the pieces at odd positions of the line cut at its quotes, the last piece left out.
  There are as many arguments as pairs of quotes, so nothing outside a pair is kept;
  and when the number of quotes is odd, the arguments are those of the text before the
  last quote, so what follows that quote is never an argument.\<close>

theorem parseCmd_args_between_quotes:
  assumes "parseCmd ops str = Some cmd"
  shows "args cmd = between_quotes str
       \<and> length (args cmd) = count_list str quote div 2
       \<and> (\<forall>pre post. str = pre @ quote # post \<and> quote \<notin> set post \<and> odd (count_list str quote)
            \<longrightarrow> args cmd = quotedArgs pre)"
proof -
  from assms have a: "args cmd = quotedArgs str"
    by (auto simp: parseCmd_def Let_def split: if_splits)
  show ?thesis
    unfolding a using quotedArgs_dangling
    by (auto simp: quotedArgs_between_quotes length_between_quotes)
qed

theorem parseCmd_args_between_quotes_witness:
  "parseCmd (possibleOperations Log_console_aliases) start_line
     = Some \<lparr>operation = ''start'', args = [''work'', ''build feature'']\<rparr>
   \<and> between_quotes start_line = [''work'', ''build feature'']
   \<and> count_list start_line quote = 5
   \<and> start_line = (''Start '' @ [quote] @ ''work'' @ [quote] @ '' x '' @ [quote] @ ''build feature'' @ [quote] @ '' '')
        @ quote # ''dangling''
   \<and> quotedArgs (''Start '' @ [quote] @ ''work'' @ [quote] @ '' x '' @ [quote] @ ''build feature'' @ [quote] @ '' '')
       = [''work'', ''build feature'']"
proof -
  note inst = parseCmd_args_between_quotes [OF parse_start_line]
  have cnt: "count_list start_line quote = 5"
    by (simp add: start_line_def quote_def)
  have shape: "start_line = (''Start '' @ [quote] @ ''work'' @ [quote] @ '' x '' @ [quote] @ ''build feature'' @ [quote] @ '' '')
        @ quote # ''dangling''"
    by (simp add: start_line_def)
  have nq: "quote \<notin> set ''dangling''"
    by (simp add: quote_def)
  from inst have bq: "between_quotes start_line = [''work'', ''build feature'']"
    by simp
  from inst shape nq cnt
  have "args \<lparr>operation = ''start'', args = [''work'', ''build feature'']\<rparr>
        = quotedArgs (''Start '' @ [quote] @ ''work'' @ [quote] @ '' x '' @ [quote] @ ''build feature'' @ [quote] @ '' '')"
    by (metis odd_numeral numeral_eq_Suc)
  with parse_start_line bq cnt shape show ?thesis by simp
qed

text \<open>C7. The grammar in the comment above \<^verbatim>\<open>parseCmd\<close> lists \<^verbatim>\<open>new\<close> as an alias of
  add, but \<^verbatim>\<open>addOp\<close> holds \<^verbatim>\<open>'add'\<close> and \<^verbatim>\<open>'continue'\<close>: with the table built from the
  arrays of this file, a line whose first token lower-cases to \<^verbatim>\<open>new\<close> is rejected.
  With no earlier console the load throws, and no line is accepted.\<close>

theorem new_alias_evaluated:
  "toLowerCase (first_token new_line) = ''new''
   \<and> \<not> List.member (possibleOperations Log_console_aliases) ''new''
   \<and> parseCmd (possibleOperations Log_console_aliases) new_line = None
   \<and> run_line sample_host new_line (state_of []) = (Normal, state_of [])
   \<and> load_console fresh_host = Inl TypeError
   \<and> run_line fresh_host new_line (state_of []) = (Throw TypeError, state_of [])"
  by (simp add: new_line_def parse_defs Log_console_aliases_def run_line_def load_console_def
      sample_host_def fresh_host_def)

section \<open>The dispatcher\<close>

lemmas sample_defs = sample_host_def entry_A_def entry_C_def entry_running_def state_of_def

lemmas number_defs = Number_def trim_def is_white_def radix_literal_def signed_literal_def
  decimal_literal_def exponent_part_def is_digit_def digits_in_def digits_value_def digit_of_def
  round_double_def floor_log2_def bitlen.simps round_half_even_def dyadic.simps minus_one_def Let_def

lemma Number_row_one: "minus_one (Number (Some ''1'')) = Num 0"
  by (simp add: number_defs)

lemma Number_row_two: "minus_one (Number (Some ''2'')) = Num 1"
  by (simp add: number_defs)

lemma minus_one_small: "minus_one (Num 2) = Num 1" "minus_one (Num 1) = Num 0" "minus_one (Num 0) = Num (- 1)"
  by (simp_all add: number_defs)

text \<open>C1. On a host whose \<^verbatim>\<open>Log\<close> has no property \<^verbatim>\<open>startOp\<close> (the file puts the
  alias arrays on \<^verbatim>\<open>Log.console\<close>), \<^verbatim>\<open>executeCmd\<close> throws a \<^verbatim>\<open>TypeError\<close> for every
  command, at the first case, and leaves the state as it was: no handler has run.
  And the cases from \<^verbatim>\<open>'edit'\<close> to \<^verbatim>\<open>'invert'\<close> match for no command: that part of
  the switch completes without any effect.\<close>

theorem executeCmd_throws:
  assumes "Log_member h ''startOp'' = None"
  shows "executeCmd h cmd st = (Throw TypeError, st) \<and> string_cases h cmd st = (Normal, st)"
  using assms by (simp add: executeCmd_def js_in_def string_cases_def)

theorem executeCmd_throws_witness:
  "Log_member sample_host ''startOp'' = None
   \<and> executeCmd sample_host \<lparr>operation = ''start'', args = [''work'', ''site'', ''build feature'']\<rparr>
        (state_of [entry_A])
       = (Throw TypeError, state_of [entry_A])
   \<and> string_cases sample_host \<lparr>operation = ''invert'', args = []\<rparr> (state_of [entry_A])
       = (Normal, state_of [entry_A])"
proof -
  have undef: "Log_member sample_host ''startOp'' = None"
    by (simp add: sample_host_def)
  show ?thesis
    using undef
      executeCmd_throws [OF undef, of "\<lparr>operation = ''start'', args = [''work'', ''site'', ''build feature'']\<rparr>"
        "state_of [entry_A]"]
      executeCmd_throws [OF undef, of "\<lparr>operation = ''invert'', args = []\<rparr>" "state_of [entry_A]"]
    by simp
qed

text \<open>C2, as the code has it. Whatever the earlier console, the parser keeps of the line \<^verbatim>\<open>edit 1 desc "refactored"\<close>
  the one argument in quotes; with every argument in quotes it keeps the three, and
  row 1 is index 0. On a log of one entry the handler \<^verbatim>\<open>edit\<close>, called with index 0,
  the attribute \<^verbatim>\<open>desc\<close> and the value \<^verbatim>\<open>refactored\<close>, sets the description of that
  entry, changes nothing else, and calls the refresh once.\<close>

theorem edit_description:
  assumes "log st = [x]"
  shows "parseCmd (possibleOperations earlier) edit_line
           = Some \<lparr>operation = ''edit'', args = [''refactored'']\<rparr>
       \<and> parseCmd (possibleOperations earlier) edit_line_quoted
           = Some \<lparr>operation = ''edit'', args = [''1'', ''desc'', ''refactored'']\<rparr>
       \<and> minus_one (Number (Some ''1'')) = Num 0
       \<and> edit h (Num 0) (Some ''desc'') (Some ''refactored'') st
           = (Normal, st\<lparr>log := [x\<lparr>d := Some ''refactored''\<rparr>], updates := Suc (updates st)\<rparr>)"
  using assms parse_edit_line parse_edit_line_quoted Number_row_one
  by (simp add: edit_def assign_entry_def options_update_def)

theorem edit_description_witness:
  "log (state_of [entry_C]) = [entry_C]
   \<and> edit sample_host (Num 0) (Some ''desc'') (Some ''refactored'') (state_of [entry_C])
       = (Normal, (state_of [entry_C])\<lparr>log := [entry_C\<lparr>d := Some ''refactored''\<rparr>],
                                        updates := Suc (updates (state_of [entry_C]))\<rparr>)
   \<and> d (entry_C\<lparr>d := Some ''refactored''\<rparr>) = Some ''refactored''
   \<and> Suc (updates (state_of [entry_C])) = 1"
proof -
  have one: "log (state_of [entry_C]) = [entry_C]"
    by (simp add: state_of_def)
  have "updates (state_of [entry_C]) = 0"
    by (simp add: state_of_def)
  with one edit_description [OF one, where h = sample_host] show ?thesis by simp
qed

text \<open>The line of C2 as the claim states it: parsed and executed on a log of one
  entry, it throws and changes nothing. The command holds one argument, so the body
  of the edit case would throw as well, at the attribute that is missing.\<close>

theorem edit_line_counterexample:
  "parseCmd (possibleOperations Log_console_aliases) edit_line
     = Some \<lparr>operation = ''edit'', args = [''refactored'']\<rparr>
   \<and> run_line sample_host edit_line (state_of [entry_C]) = (Throw TypeError, state_of [entry_C])
   \<and> edit_case sample_host \<lparr>operation = ''edit'', args = [''refactored'']\<rparr> (state_of [entry_C])
       = (Throw TypeError, state_of [entry_C])
   \<and> \<not> (map d (log (snd (run_line sample_host edit_line (state_of [entry_C])))) = [Some ''refactored'']
         \<and> updates (snd (run_line sample_host edit_line (state_of [entry_C])))
             = Suc (updates (state_of [entry_C])))"
proof -
  have run: "run_line sample_host edit_line (state_of [entry_C]) = (Throw TypeError, state_of [entry_C])"
    by (simp add: run_line_def load_console_def parse_edit_line executeCmd_def js_in_def sample_host_def)
  have body: "edit_case sample_host \<lparr>operation = ''edit'', args = [''refactored'']\<rparr> (state_of [entry_C])
       = (Throw TypeError, state_of [entry_C])"
    by (simp add: edit_case_def arg_at_def)
  have "updates (state_of [entry_C]) = 0"
    by (simp add: state_of_def)
  with run body parse_edit_line show ?thesis by simp
qed

text \<open>C3. The command that deletes row 2 of a log of two entries: \<^verbatim>\<open>executeCmd\<close>
  throws and the log keeps both. The body of the delete case subtracts 1 and
  \<^verbatim>\<open>delete\<close> subtracts 1 again: for row 2 it removes the first entry, for row 1 the
  last.\<close>

theorem delete_row_evaluated:
  "executeCmd sample_host \<lparr>operation = ''delete'', args = [''2'']\<rparr> (state_of [entry_A, entry_C])
     = (Throw TypeError, state_of [entry_A, entry_C])
   \<and> log (snd (delete_case \<lparr>operation = ''delete'', args = [''2'']\<rparr> (state_of [entry_A, entry_C])))
       = [entry_C]
   \<and> log (snd (delete_case \<lparr>operation = ''delete'', args = [''1'']\<rparr> (state_of [entry_A, entry_C])))
       = [entry_A]
   \<and> entry_A \<noteq> entry_C"
  by (simp add: executeCmd_def js_in_def sample_host_def delete_case_def delete_def arg_at_def
      Number_row_one Number_row_two minus_one_small splice1_def actual_start_def clamp_start_def
      options_update_def state_of_def entry_A_def entry_C_def)

section \<open>The handlers\<close>

lemma last_entry_eq: "last_entry lg = (if lg = [] then None else Some (last lg))"
proof (cases lg rule: rev_cases)
  case Nil
  then show ?thesis by (simp add: last_entry_def slice_from_def element0_def)
next
  case (snoc ys y)
  then show ?thesis by (simp add: last_entry_def slice_from_def element0_def)
qed

text \<open>The invariant says that every entry but the last is closed.\<close>

lemma log_invariant_butlast: "log_invariant lg = list_all (\<lambda>x. \<not> is_open x) (butlast lg)"
proof (cases lg rule: rev_cases)
  case Nil
  then show ?thesis by (simp add: log_invariant_def)
next
  case (snoc ys y)
  have "(filter is_open ys = []) = list_all (\<lambda>x. \<not> is_open x) ys"
    by (simp add: filter_empty_conv list_all_iff)
  with snoc show ?thesis
    by (cases "is_open y") (auto simp: log_invariant_def)
qed

lemma closed_log:
  "log_invariant lg \<Longrightarrow> lg = [] \<or> \<not> is_open (last lg) \<Longrightarrow> list_all (\<lambda>x. \<not> is_open x) lg"
proof (cases lg rule: rev_cases)
  case Nil
  then show ?thesis by simp
next
  case (snoc ys y)
  assume "log_invariant lg" "lg = [] \<or> \<not> is_open (last lg)"
  with snoc show ?thesis by (simp add: log_invariant_butlast)
qed

lemma startLog_log:
  "log (snd (startLog h sect proj desc st)) =
     (if log st \<noteq> [] \<and> is_open (last (log st)) then log st
      else log st @ [\<lparr>s = toHex_now h, e = Some ''undefined'', c = sect, t = proj, d = desc\<rparr>])"
  by (simp add: startLog_def last_entry_eq options_update_def notify_def)

lemma startLog_invariant:
  assumes "log_invariant (log st)"
  shows "log_invariant (log (snd (startLog h sect proj desc st)))"
proof (cases "log st \<noteq> [] \<and> is_open (last (log st))")
  case True
  with assms show ?thesis by (simp add: startLog_log)
next
  case False
  with assms have "list_all (\<lambda>x. \<not> is_open x) (log st)"
    by (intro closed_log) auto
  with False show ?thesis
    by (auto simp: startLog_log log_invariant_butlast)
qed

lemma endLog_invariant:
  assumes "log_invariant (log st)"
  shows "log_invariant (log (snd (endLog h st)))"
  using assms
  by (auto simp: endLog_def last_entry_eq options_update_def notify_def clearInterval_def
      log_invariant_butlast butlast_list_update)

lemma resume_log:
  "log (snd (resume h (- 1) st)) =
     (if log st = [] \<or> is_open (last (log st)) then log st
      else log st @ [\<lparr>s = toHex_now h, e = Some ''undefined'',
                      c = c (last (log st)), t = t (last (log st)), d = d (last (log st))\<rparr>])"
  using last_entry_eq [of "log st"]
  by (auto simp: resume_def last_entry_def options_update_def notify_def)

lemma resume_invariant:
  assumes "log_invariant (log st)"
  shows "log_invariant (log (snd (resume h (- 1) st)))"
proof (cases "log st = [] \<or> is_open (last (log st))")
  case True
  with assms show ?thesis by (simp add: resume_log)
next
  case False
  with assms have "list_all (\<lambda>x. \<not> is_open x) (log st)"
    by (intro closed_log) auto
  with False show ?thesis
    by (auto simp: resume_log log_invariant_butlast)
qed

lemma addLog_invariant:
  "log_invariant (log (snd (addLog h sect proj desc start end' st))) = (filter is_open (log st) = [])"
  by (simp add: addLog_def options_update_def notify_def log_invariant_butlast
      filter_empty_conv list_all_iff)

text \<open>C4. On the empty log \<^verbatim>\<open>endLog\<close> and \<^verbatim>\<open>resume\<close> throw a \<^verbatim>\<open>TypeError\<close>: both read
  \<^verbatim>\<open>.e\<close> of an entry that is not there. The state is left as it was.\<close>

theorem stop_resume_empty_evaluated:
  "endLog sample_host (state_of []) = (Throw TypeError, state_of [])
   \<and> resume sample_host (- 1) (state_of []) = (Throw TypeError, state_of [])"
  by (simp add: endLog_def resume_def last_entry_def slice_from_def element0_def state_of_def)

text \<open>C5. \<^verbatim>\<open>rename('sector', 'A', 'B')\<close> on a log with an entry of sector A and one of
  sector C returns at the guard of line 341, \<^verbatim>\<open>'sector'\<close> being no property name of
  the array: no entry is rewritten and nothing is notified. With an old name that no
  entry has, it returns at the same guard without the not-found message.\<close>

theorem rename_sector_evaluated:
  "rename sample_host (Some ''sector'') (Some ''A'') (Some ''B'') (state_of [entry_A, entry_C])
     = (Normal, state_of [entry_A, entry_C])
   \<and> rename sample_host (Some ''sector'') (Some ''Z'') (Some ''B'') (state_of [entry_A, entry_C])
     = (Normal, state_of [entry_A, entry_C])
   \<and> c entry_A = Some ''A''"
  by (simp add: rename_def has_property_def to_string_def sample_host_def index_text.simps
      digit_char_def upt_rec entry_A_def)

text \<open>C6, as the code has it. From a log that satisfies the invariant, \<^verbatim>\<open>startLog\<close>,
  \<^verbatim>\<open>endLog\<close> and \<^verbatim>\<open>resume\<close> of the last entry leave a log that satisfies it, however
  they complete; \<^verbatim>\<open>addLog\<close> leaves one exactly when no entry was open before the
  call.\<close>

theorem operations_keep_invariant:
  assumes "log_invariant (log st)"
  shows "log_invariant (log (snd (startLog h sect proj desc st)))
       \<and> log_invariant (log (snd (endLog h st)))
       \<and> log_invariant (log (snd (resume h (- 1) st)))
       \<and> (log_invariant (log (snd (addLog h sect proj desc start end' st)))
            = (filter is_open (log st) = []))"
  using assms startLog_invariant endLog_invariant resume_invariant addLog_invariant by blast

theorem operations_keep_invariant_witness:
  "log_invariant (log (state_of [entry_A]))
   \<and> log_invariant (log (snd (startLog sample_host (Some ''A'') (Some ''site'') None (state_of [entry_A]))))
   \<and> log_invariant (log (snd (endLog sample_host (state_of [entry_A]))))
   \<and> log_invariant (log (snd (resume sample_host (- 1) (state_of [entry_A]))))
   \<and> log_invariant
       (log (snd (addLog sample_host (Some ''A'') (Some ''site'') None
                    (Some ''5bd6a900'') (Some ''5bd6aa00'') (state_of [entry_A]))))
   \<and> filter is_open (log (state_of [entry_A])) = []"
proof -
  have inv: "log_invariant (log (state_of [entry_A]))"
    by (simp add: sample_defs log_invariant_def is_open_def)
  have closed: "filter is_open (log (state_of [entry_A])) = []"
    by (simp add: sample_defs is_open_def)
  show ?thesis
    using inv closed
      operations_keep_invariant [OF inv, of sample_host "Some ''A''" "Some ''site''" None
        "Some ''5bd6a900''" "Some ''5bd6aa00''"]
    by simp
qed

text \<open>The invariant of C6 as the claim states it, for \<^verbatim>\<open>addLog\<close>: added to a log
  whose last entry is open, the new entry stands behind the open one.\<close>

theorem add_breaks_invariant:
  "log_invariant (log (state_of [entry_A, entry_running]))
   \<and> \<not> log_invariant
         (log (snd (addLog sample_host (Some ''A'') (Some ''site'') (Some ''late entry'')
                      (Some ''5bd6a900'') (Some ''5bd6aa00'') (state_of [entry_A, entry_running]))))"
  by (simp add: sample_defs log_invariant_def is_open_def addLog_def options_update_def notify_def)

text \<open>C8. When the log has a last entry and it is open, \<^verbatim>\<open>startLog\<close> completes
  normally and leaves the state, the log in it, as it was. So a second \<^verbatim>\<open>startLog\<close>
  right after a first one, whatever their arguments, leaves the state that the first
  one left.\<close>

theorem startLog_twice:
  "(log st \<noteq> [] \<and> is_open (last (log st)) \<longrightarrow> startLog h sect proj desc st = (Normal, st))
   \<and> startLog h' sect' proj' desc' (snd (startLog h sect proj desc st))
       = (Normal, snd (startLog h sect proj desc st))"
proof -
  have noop: "startLog k a b x u = (Normal, u)" if "log u \<noteq> []" "is_open (last (log u))" for k a b x u
    using that by (simp add: startLog_def last_entry_eq)
  have "log (snd (startLog h sect proj desc st)) \<noteq> []"
    "is_open (last (log (snd (startLog h sect proj desc st))))"
    by (auto simp: startLog_log is_open_def)
  then show ?thesis
    using noop by blast
qed

theorem startLog_twice_witness:
  "log (state_of [entry_A, entry_running]) \<noteq> []
   \<and> is_open (last (log (state_of [entry_A, entry_running])))
   \<and> startLog sample_host (Some ''C'') (Some ''notes'') (Some ''again'') (state_of [entry_A, entry_running])
       = (Normal, state_of [entry_A, entry_running])
   \<and> startLog sample_host (Some ''C'') None None
        (snd (startLog sample_host (Some ''C'') (Some ''notes'') (Some ''again'')
                (state_of [entry_A, entry_running])))
       = (Normal, state_of [entry_A, entry_running])"
proof -
  have ne: "log (state_of [entry_A, entry_running]) \<noteq> []"
    by (simp add: state_of_def)
  have op: "is_open (last (log (state_of [entry_A, entry_running])))"
    by (simp add: sample_defs is_open_def)
  note twice = startLog_twice [of "state_of [entry_A, entry_running]" sample_host "Some ''C''"
      "Some ''notes''" "Some ''again''" sample_host "Some ''C''" None None]
  from twice ne op have first: "startLog sample_host (Some ''C'') (Some ''notes'') (Some ''again'')
      (state_of [entry_A, entry_running]) = (Normal, state_of [entry_A, entry_running])"
    by blast
  from twice have "startLog sample_host (Some ''C'') None None
      (snd (startLog sample_host (Some ''C'') (Some ''notes'') (Some ''again'')
              (state_of [entry_A, entry_running])))
      = (Normal, snd (startLog sample_host (Some ''C'') (Some ''notes'') (Some ''again'')
                        (state_of [entry_A, entry_running])))"
    by blast
  with first ne op show ?thesis by simp
qed

section \<open>Further properties of the handlers and the parser\<close>

text \<open>The handler \<^verbatim>\<open>delete\<close> on its own takes the row number: called with 2 on a log
  of two entries it removes the second, with 1 the first, and calls the refresh
  once.\<close>

lemma delete_direct_evaluated:
  "delete (Num 2) (state_of [entry_A, entry_C])
     = (Normal, (state_of [entry_A, entry_C])\<lparr>log := [entry_A], updates := 1\<rparr>)
   \<and> delete (Num 1) (state_of [entry_A, entry_C])
     = (Normal, (state_of [entry_A, entry_C])\<lparr>log := [entry_C], updates := 1\<rparr>)"
  by (simp add: delete_def minus_one_small splice1_def actual_start_def clamp_start_def
      options_update_def state_of_def)

text \<open>None of the four category names is the decimal text of an index.\<close>

lemma category_names_no_index:
  "\<not> List.member (map index_text [0..<length [''sector'', ''sec'', ''project'', ''pro'']]) ''sector''"
  "\<not> List.member (map index_text [0..<length [''sector'', ''sec'', ''project'', ''pro'']]) ''sec''"
  "\<not> List.member (map index_text [0..<length [''sector'', ''sec'', ''project'', ''pro'']]) ''project''"
  "\<not> List.member (map index_text [0..<length [''sector'', ''sec'', ''project'', ''pro'']]) ''pro''"
  by (simp_all add: index_text.simps digit_char_def upt_rec)

text \<open>On a host where none of the four category names is an inherited property
  of arrays, \<^verbatim>\<open>rename\<close> changes nothing and notifies nothing, whatever its arguments:
  a category that passes the guard of line 341 is a property name of the array, and
  no branch after the guard is written for such a name.\<close>

theorem rename_changes_nothing:
  assumes "\<not> List.member (inherited h) ''sector''" "\<not> List.member (inherited h) ''sec''"
    "\<not> List.member (inherited h) ''project''" "\<not> List.member (inherited h) ''pro''"
  shows "rename h category oldName newName st = (Normal, st)"
proof (cases "has_property (inherited h) [''sector'', ''sec'', ''project'', ''pro''] (to_string category)")
  case False
  then show ?thesis by (simp add: rename_def)
next
  case True
  have "category \<noteq> Some ''sector''" "category \<noteq> Some ''sec''"
    "category \<noteq> Some ''project''" "category \<noteq> Some ''pro''"
    using True assms category_names_no_index
    by (auto simp: has_property_def to_string_def)
  with True show ?thesis by (simp add: rename_def)
qed

theorem rename_changes_nothing_witness:
  "\<not> List.member (inherited sample_host) ''sector'' \<and> \<not> List.member (inherited sample_host) ''sec''
   \<and> \<not> List.member (inherited sample_host) ''project'' \<and> \<not> List.member (inherited sample_host) ''pro''
   \<and> rename sample_host (Some ''project'') (Some ''site'') (Some ''web'') (state_of [entry_A, entry_C])
       = (Normal, state_of [entry_A, entry_C])
   \<and> rename sample_host (Some ''length'') (Some ''site'') (Some ''web'') (state_of [entry_A, entry_C])
       = (Normal, state_of [entry_A, entry_C])"
proof -
  have a: "\<not> List.member (inherited sample_host) ''sector''" and b: "\<not> List.member (inherited sample_host) ''sec''"
    and c': "\<not> List.member (inherited sample_host) ''project''" and d': "\<not> List.member (inherited sample_host) ''pro''"
    by (simp_all add: sample_host_def)
  show ?thesis
    using a b c' d' rename_changes_nothing [OF a b c' d'] by simp
qed

text \<open>When the last entry is open and the clock does not answer the word
  \<^verbatim>\<open>undefined\<close>, \<^verbatim>\<open>endLog\<close> followed by \<^verbatim>\<open>resume\<close> closes the last entry and appends
  an open entry with the sector, project and description of the entry just closed.\<close>

theorem resume_after_stop:
  assumes "log st \<noteq> []" "is_open (last (log st))" "toHex_now h \<noteq> Some ''undefined''"
  shows "fst (endLog h st) = Normal
       \<and> fst (resume h' (- 1) (snd (endLog h st))) = Normal
       \<and> log (snd (resume h' (- 1) (snd (endLog h st))))
           = butlast (log st) @
             [(last (log st))\<lparr>e := toHex_now h\<rparr>,
              \<lparr>s = toHex_now h', e = Some ''undefined'',
               c = c (last (log st)), t = t (last (log st)), d = d (last (log st))\<rparr>]"
proof -
  obtain ys y where lg: "log st = ys @ [y]"
    using assms(1) by (cases "log st" rule: rev_cases) auto
  with assms(2) have op: "is_open y" by simp
  have l1: "last_entry (ys @ [y]) = Some y"
    by (simp add: last_entry_def slice_from_def element0_def)
  have stop: "endLog h st = (Normal, options_update (notify (''Log ended: '' @ label3 (c y) (t y) (d y))
                  (clearInterval (st\<lparr>log := ys @ [y\<lparr>e := toHex_now h\<rparr>]\<rparr>))))"
    using lg op l1 by (simp add: endLog_def)
  have l2: "element0 (slice_from (- 1) (ys @ [y\<lparr>e := toHex_now h\<rparr>])) = Some (y\<lparr>e := toHex_now h\<rparr>)"
    by (simp add: slice_from_def element0_def)
  show ?thesis
    using assms(3) lg l2
    by (simp add: stop resume_def options_update_def notify_def clearInterval_def is_open_def)
qed

theorem resume_after_stop_witness:
  "log (state_of [entry_A, entry_running]) \<noteq> []
   \<and> is_open (last (log (state_of [entry_A, entry_running])))
   \<and> toHex_now sample_host \<noteq> Some ''undefined''
   \<and> log (snd (resume sample_host (- 1) (snd (endLog sample_host (state_of [entry_A, entry_running])))))
       = [entry_A, entry_running\<lparr>e := Some ''5bd6c1a0''\<rparr>,
          \<lparr>s = Some ''5bd6c1a0'', e = Some ''undefined'', c = Some ''A'', t = Some ''site'', d = Some ''review''\<rparr>]"
proof -
  have ne: "log (state_of [entry_A, entry_running]) \<noteq> []"
    by (simp add: state_of_def)
  have op: "is_open (last (log (state_of [entry_A, entry_running])))"
    by (simp add: state_of_def entry_running_def is_open_def)
  have clk: "toHex_now sample_host \<noteq> Some ''undefined''"
    by (simp add: sample_host_def)
  have vals: "log (state_of [entry_A, entry_running]) = [entry_A, entry_running]"
    "toHex_now sample_host = Some ''5bd6c1a0''"
    "c entry_running = Some ''A''" "t entry_running = Some ''site''" "d entry_running = Some ''review''"
    by (simp_all add: state_of_def sample_host_def entry_running_def)
  show ?thesis
    using ne op clk resume_after_stop [OF ne op clk, of sample_host] vals by simp
qed

text \<open>A line whose first token, in lower case, is not in the table that the load has
  built is rejected by the parser, and running it leaves the state as it was.\<close>

theorem unknown_operation_ignored:
  assumes "load_console h = Inr ops" "\<not> List.member ops (toLowerCase (first_token str))"
  shows "parseCmd ops str = None \<and> run_line h str st = (Normal, st)"
  using assms by (simp add: run_line_def parseCmd_def)

theorem unknown_operation_ignored_witness:
  "load_console sample_host = Inr (possibleOperations Log_console_aliases)
   \<and> \<not> List.member (possibleOperations Log_console_aliases)
         (toLowerCase (first_token (''xyz '' @ [quote] @ ''a'' @ [quote])))
   \<and> parseCmd (possibleOperations Log_console_aliases) (''xyz '' @ [quote] @ ''a'' @ [quote]) = None
   \<and> run_line sample_host (''xyz '' @ [quote] @ ''a'' @ [quote]) (state_of [entry_A])
       = (Normal, state_of [entry_A])"
proof -
  have ld: "load_console sample_host = Inr (possibleOperations Log_console_aliases)"
    by (simp add: load_console_def sample_host_def)
  have rej: "\<not> List.member (possibleOperations Log_console_aliases)
      (toLowerCase (first_token (''xyz '' @ [quote] @ ''a'' @ [quote])))"
    by (simp add: first_token_def toLowerCase_def toLowerCase_char_def
      possibleOperations_def Log_console_aliases_def quote_def space_def)
  show ?thesis
    using ld rej unknown_operation_ignored [OF ld rej, of "state_of [entry_A]"] by simp
qed

end
